theory Spec2Isabelle
  imports Complex_Main "HOL-Library.Word" "HOL-Library.Multiset" "HOL-Library.Sublist"
begin

section \<open>The to-do list of \<open>src/app/page.tsx\<close>\<close>

text \<open>
  The component \<open>Home\<close> keeps a list of tasks, the text of the input field and the
  selected filter in React state, loads the list from \<open>localStorage\<close> once at start-up
  and writes it back after every change. The event handlers are modelled as functions
  from the state to the next state, the two effects as functions on an explicit
  environment that holds what the component reads from its host.
\<close>

subsection \<open>Strings and numbers of the host language\<close>

text \<open>
  A JavaScript string is a sequence of 16-bit code units. Program literals are written
  \<open>js ''...''\<close>.
\<close>

type_synonym jsstring = "16 word list"

definition js :: "string \<Rightarrow> jsstring" where
  "js s = map (\<lambda>c. of_nat (of_char c)) s"

text \<open>
  A number is a double: a finite value, the negative zero, or one of the three values
  that are not finite. \<open>Finite r\<close> is the double that denotes the rational \<open>r\<close>
  (\<open>Finite 0\<close> is the positive zero); \<open>NegZero\<close> is \<open>-0\<close>, a finite number of
  its own.
\<close>

datatype jsnum = Finite rat | NegZero | NaN | PosInfinity | NegInfinity

fun isFinite :: "jsnum \<Rightarrow> bool" where
  "isFinite (Finite r) = True"
| "isFinite NegZero = True"
| "isFinite n = False"

subsection \<open>Values of the host language\<close>

text \<open>
  What \<open>JSON.parse\<close> returns is not typed: a value of JavaScript. An object is the
  list of its own properties; a property is looked up by its name, the first entry for
  a name counts.
\<close>

datatype jsval = JUndefined | JNull | JBool bool | JNum jsnum | JStr jsstring
  | JArr "jsval list" | JObj "(jsstring \<times> jsval) list"

datatype js_error = SyntaxError | TypeError

fun typeof :: "jsval \<Rightarrow> string" where
  "typeof JUndefined = ''undefined''"
| "typeof JNull = ''object''"
| "typeof (JBool b) = ''boolean''"
| "typeof (JNum n) = ''number''"
| "typeof (JStr s) = ''string''"
| "typeof (JArr xs) = ''object''"
| "typeof (JObj ps) = ''object''"

text \<open>
  The property read \<open>todo.k\<close>, for the four names the program reads (\<open>id\<close>,
  \<open>text\<close>, \<open>completed\<close>, \<open>createdAt\<close>): none of them is a member of a built-in
  prototype, an index or \<open>length\<close>, so an object yields its own property or
  \<open>undefined\<close>, and a boolean, a number, a string or an array yields \<open>undefined\<close>.
  Reading a property of \<open>null\<close> or \<open>undefined\<close> throws a \<open>TypeError\<close>.
\<close>

fun prop_value :: "jsval \<Rightarrow> jsstring \<Rightarrow> jsval" where
  "prop_value (JObj ps) k = (case map_of ps k of Some v \<Rightarrow> v | None \<Rightarrow> JUndefined)"
| "prop_value v k = JUndefined"

fun getProp :: "jsval \<Rightarrow> jsstring \<Rightarrow> js_error + jsval" where
  "getProp JUndefined k = Inl TypeError"
| "getProp JNull k = Inl TypeError"
| "getProp v k = Inr (prop_value v k)"

subsection \<open>The data model\<close>

text \<open>
  \<open>interface Todo { id: string; text: string; completed: boolean; createdAt: number }\<close>.
  The fields \<open>id\<close> and \<open>text\<close> carry a prime, since the plain names are taken.
  An interface says which properties an object has at least: an object of the list can
  have further properties (one that was read from storage has whatever was stored), the
  handlers copy them along (\<open>{ ...todo, completed: ... }\<close>) and \<open>JSON.stringify\<close>
  writes them. A \<open>task\<close> is a \<open>Todo\<close> with the list of its further own properties,
  those whose name is none of the four, as the extension of the record.
\<close>

record Todo =
  id' :: jsstring
  text' :: jsstring
  completed :: bool
  createdAt :: jsnum

type_synonym task = "(jsstring \<times> jsval) list Todo_scheme"

text \<open>\<open>type Filter = "all" | "active" | "completed"\<close>\<close>

datatype Filter = F_all | F_active | F_completed

text \<open>
  The three \<open>useState\<close> cells of \<open>Home\<close>: \<open>todos\<close>, \<open>text\<close> (here \<open>text_s\<close>) and
  \<open>filter\<close> (here \<open>filter_s\<close>).
\<close>

record state =
  todos :: "task list"
  text_s :: jsstring
  filter_s :: Filter

subsection \<open>The handlers that change the list\<close>

text \<open>
  \<open>String.prototype.trim\<close> removes the white space and the line terminators of
  ECMAScript from both ends: TAB, LF, VT, FF, CR, SP, NBSP, the other space separators
  of Unicode (U+1680, U+2000 to U+200A, U+202F, U+205F, U+3000), the line and paragraph
  separators U+2028 and U+2029, and the byte order mark U+FEFF.
\<close>

definition isWhiteSpace :: "16 word \<Rightarrow> bool" where
  "isWhiteSpace c \<longleftrightarrow>
     c \<in> {0x09, 0x0A, 0x0B, 0x0C, 0x0D, 0x20, 0xA0, 0x1680, 0x2028, 0x2029, 0x202F,
          0x205F, 0x3000, 0xFEFF} \<or> (0x2000 \<le> c \<and> c \<le> 0x200A)"

definition trim :: "jsstring \<Rightarrow> jsstring" where
  "trim s = rev (dropWhile isWhiteSpace (rev (dropWhile isWhiteSpace s)))"

text \<open>
  \<open>createId\<close> reads three things from its host: \<open>crypto_randomUUID\<close> is \<open>None\<close>
  when \<open>crypto\<close> is undefined or has no member \<open>randomUUID\<close>, and \<open>Some u\<close> when
  \<open>crypto.randomUUID()\<close> returns \<open>u\<close>; \<open>Date_now\<close> is the value of
  \<open>Date.now()\<close>, an integer number of milliseconds; \<open>Math_random_16\<close> is the string
  \<open>Math.random().toString(16)\<close>. The template literal writes the integer in decimal
  digits, and \<open>slice(2)\<close> drops the first two code units.
\<close>

record host =
  crypto_randomUUID :: "jsstring option"
  Date_now :: int
  Math_random_16 :: jsstring

fun digits10 :: "nat \<Rightarrow> jsstring" where
  "digits10 n =
     (if n < 10 then [of_nat (48 + n)] else digits10 (n div 10) @ [of_nat (48 + n mod 10)])"

declare digits10.simps [simp del]

definition toString_int :: "int \<Rightarrow> jsstring" where
  "toString_int n = (if n < 0 then js ''-'' @ digits10 (nat (- n)) else digits10 (nat n))"

definition createId :: "host \<Rightarrow> jsstring" where
  "createId h =
     (case crypto_randomUUID h of
        Some u \<Rightarrow> u
      | None \<Rightarrow> toString_int (Date_now h) @ js ''-'' @ drop 2 (Math_random_16 h))"

text \<open>
  \<open>handleSubmit\<close>. The host of the call to \<open>createId()\<close> and the value of the
  later \<open>Date.now()\<close> for \<open>createdAt\<close> are arguments. An empty string is the only
  falsy string, so \<open>!trimmed\<close> is \<open>trimmed = []\<close>. The object literal has the four
  properties and no other.
\<close>

definition handleSubmit :: "host \<Rightarrow> int \<Rightarrow> state \<Rightarrow> state" where
  "handleSubmit h now s =
     (let trimmed = trim (text_s s) in
      if trimmed = [] then s
      else
        let nextTodo = \<lparr>id' = createId h, text' = trimmed, completed = False,
                         createdAt = Finite (of_int now), \<dots> = []\<rparr>
        in s\<lparr>todos := nextTodo # todos s, text_s := []\<rparr>)"

text \<open>
  \<open>toggleTodo\<close>, \<open>deleteTodo\<close> and \<open>clearCompleted\<close> pass a function from the
  previous list to the next one to \<open>setTodos\<close>; the functions are modelled on lists
  and lifted to the state. They read \<open>id\<close> and \<open>completed\<close> only, whatever further
  properties a task has; the copy \<open>{ ...todo, completed: !todo.completed }\<close> is the
  record update.
\<close>

definition toggleTodo :: "jsstring \<Rightarrow> 'a Todo_scheme list \<Rightarrow> 'a Todo_scheme list" where
  "toggleTodo i prev =
     map (\<lambda>todo. if id' todo = i then todo\<lparr>completed := \<not> completed todo\<rparr> else todo) prev"

definition deleteTodo :: "jsstring \<Rightarrow> 'a Todo_scheme list \<Rightarrow> 'a Todo_scheme list" where
  "deleteTodo i prev = filter (\<lambda>todo. id' todo \<noteq> i) prev"

definition clearCompleted :: "'a Todo_scheme list \<Rightarrow> 'a Todo_scheme list" where
  "clearCompleted prev = filter (\<lambda>todo. \<not> completed todo) prev"

definition setTodos :: "(task list \<Rightarrow> task list) \<Rightarrow> state \<Rightarrow> state" where
  "setTodos f s = s\<lparr>todos := f (todos s)\<rparr>"

text \<open>
  The view: \<open>filteredTodos\<close> is a \<open>useMemo\<close> over \<open>filter\<close> and \<open>todos\<close>, a
  \<open>switch\<close> with the cases \<open>"active"\<close> and \<open>"completed"\<close> and a \<open>default\<close>. It
  calls no setter, so it has no state to return. The filter buttons call \<open>setFilter\<close>,
  the input field calls \<open>setText\<close>.
\<close>

fun filteredTodos :: "Filter \<Rightarrow> 'a Todo_scheme list \<Rightarrow> 'a Todo_scheme list" where
  "filteredTodos F_active ts = filter (\<lambda>todo. \<not> completed todo) ts"
| "filteredTodos F_completed ts = filter (\<lambda>todo. completed todo) ts"
| "filteredTodos _ ts = ts"

definition setFilter :: "Filter \<Rightarrow> state \<Rightarrow> state" where
  "setFilter f s = s\<lparr>filter_s := f\<rparr>"

definition setText :: "jsstring \<Rightarrow> state \<Rightarrow> state" where
  "setText v s = s\<lparr>text_s := v\<rparr>"

subsection \<open>The host's storage and JSON\<close>

text \<open>
  \<open>localStorage\<close> maps keys to strings. The program passes a stored string to
  \<open>JSON.parse\<close> and looks at nothing else of it but whether it is empty, so a stored
  string is represented by what \<open>JSON.parse\<close> makes of it: \<open>NotJSON s\<close> is a string
  \<open>s\<close> that \<open>JSON.parse\<close> rejects with a \<open>SyntaxError\<close> (the empty string is one),
  \<open>JSONText v\<close> is a string that \<open>JSON.parse\<close> accepts and reads as the value
  \<open>v\<close> (such a string is never empty). Every string is of one of the two kinds.
\<close>

datatype stored = NotJSON jsstring | JSONText jsval

fun JSON_parse :: "stored \<Rightarrow> js_error + jsval" where
  "JSON_parse (NotJSON s) = Inl SyntaxError"
| "JSON_parse (JSONText v) = Inr v"

text \<open>\<open>!stored\<close> for a string: only the empty string is falsy.\<close>

fun falsy :: "stored \<Rightarrow> bool" where
  "falsy (NotJSON s) = (s = [])"
| "falsy (JSONText v) = False"

text \<open>
  \<open>JSON.stringify\<close> writes a text that \<open>JSON.parse\<close> accepts; \<open>reread v\<close> is the
  value that is read back from the text written for \<open>v\<close>, by the rules of ECMAScript
  for serialising: a number that is not finite is written as \<open>null\<close>, and so is
  \<open>undefined\<close> as an element of an array; \<open>-0\<close> is written as \<open>0\<close>; a property
  whose value is \<open>undefined\<close> is left out; strings, booleans, \<open>null\<close> and the other
  finite numbers are read back as they were.
\<close>

fun reread :: "jsval \<Rightarrow> jsval" where
  "reread JUndefined = JNull"
| "reread (JNum (Finite r)) = JNum (Finite r)"
| "reread (JNum NegZero) = JNum (Finite 0)"
| "reread (JNum n) = JNull"
| "reread (JArr xs) = JArr (map reread xs)"
| "reread (JObj ps) =
     JObj (map (\<lambda>(k, v). (k, reread v)) (filter (\<lambda>(k, v). v \<noteq> JUndefined) ps))"
| "reread v = v"

definition JSON_stringify :: "jsval \<Rightarrow> stored" where
  "JSON_stringify v = JSONText (reread v)"

text \<open>
  What the two effects read from the host: whether \<open>window\<close> is defined, and the
  content of \<open>localStorage\<close>. A storage that refuses access is outside the model.
\<close>

record env =
  window_defined :: bool
  localStorage :: "jsstring \<Rightarrow> stored option"

definition STORAGE_KEY :: jsstring where
  "STORAGE_KEY = js ''minimal-pretty-todos''"

subsection \<open>Loading and saving\<close>

text \<open>
  The callback of \<open>parsed.filter\<close>: four tests \<open>typeof todo.k === "..."\<close> joined by
  \<open>&&\<close>, which evaluates its right operand only when the left one is true. A test
  throws when the property read throws.
\<close>

definition typeof_is :: "jsval \<Rightarrow> jsstring \<Rightarrow> string \<Rightarrow> js_error + bool" where
  "typeof_is todo k ty =
     (case getProp todo k of Inl e \<Rightarrow> Inl e | Inr v \<Rightarrow> Inr (typeof v = ty))"

definition and_also :: "js_error + bool \<Rightarrow> js_error + bool \<Rightarrow> js_error + bool" where
  "and_also a b = (case a of Inl e \<Rightarrow> Inl e | Inr x \<Rightarrow> if x then b else Inr False)"

definition isTodo :: "jsval \<Rightarrow> js_error + bool" where
  "isTodo todo =
     and_also (and_also (and_also
       (typeof_is todo (js ''id'') ''string'')
       (typeof_is todo (js ''text'') ''string''))
       (typeof_is todo (js ''completed'') ''boolean''))
       (typeof_is todo (js ''createdAt'') ''number'')"

text \<open>
  \<open>Array.prototype.filter\<close> with a callback that may throw: the elements are visited
  in order, and an exception of the callback ends the call.
\<close>

fun filter_js :: "('a \<Rightarrow> js_error + bool) \<Rightarrow> 'a list \<Rightarrow> js_error + 'a list" where
  "filter_js p [] = Inr []"
| "filter_js p (x # xs) =
     (case p x of
        Inl e \<Rightarrow> Inl e
      | Inr keep \<Rightarrow>
          (case filter_js p xs of
             Inl e \<Rightarrow> Inl e
           | Inr ys \<Rightarrow> Inr (if keep then x # ys else ys)))"

text \<open>
  The type assertion \<open>as Todo[]\<close> changes nothing at run time: the list that
  \<open>loadTodos\<close> returns holds the parsed objects themselves. \<open>as_Todo\<close> is the parsed
  object as a task: its four fields, and its other properties as they are. On an element
  that the filter keeps each of the four reads yields a value of the declared type
  (\<open>isTodo_kept\<close> below), so the values given here for other cases are never part of
  what \<open>loadTodos\<close> returns. \<open>without k ps\<close> is the properties \<open>ps\<close> but the
  one named \<open>k\<close>.
\<close>

fun string_of :: "jsval \<Rightarrow> jsstring" where
  "string_of (JStr s) = s"
| "string_of v = []"

fun boolean_of :: "jsval \<Rightarrow> bool" where
  "boolean_of (JBool b) = b"
| "boolean_of v = False"

fun number_of :: "jsval \<Rightarrow> jsnum" where
  "number_of (JNum n) = n"
| "number_of v = NaN"

fun without :: "jsstring \<Rightarrow> (jsstring \<times> jsval) list \<Rightarrow> (jsstring \<times> jsval) list" where
  "without k [] = []"
| "without k (p # ps) = (if fst p = k then ps else p # without k ps)"

fun other_properties :: "jsval \<Rightarrow> (jsstring \<times> jsval) list" where
  "other_properties (JObj ps) =
     without (js ''createdAt'') (without (js ''completed'')
       (without (js ''text'') (without (js ''id'') ps)))"
| "other_properties v = []"

definition as_Todo :: "jsval \<Rightarrow> task" where
  "as_Todo v =
     \<lparr>id' = string_of (prop_value v (js ''id'')),
      text' = string_of (prop_value v (js ''text'')),
      completed = boolean_of (prop_value v (js ''completed'')),
      createdAt = number_of (prop_value v (js ''createdAt'')),
      \<dots> = other_properties v\<rparr>"

text \<open>
  \<open>loadTodos\<close>: the body of the \<open>try\<close> block, with the exceptions it can raise as
  values, and the function itself, whose \<open>catch\<close> turns every exception into the
  empty list. \<open>getItem\<close> returns \<open>null\<close> for a key that is not stored.
\<close>

definition loadTodos_try :: "env \<Rightarrow> js_error + task list" where
  "loadTodos_try e =
     (case localStorage e STORAGE_KEY of
        None \<Rightarrow> Inr []
      | Some stored \<Rightarrow>
          if falsy stored then Inr []
          else
            (case JSON_parse stored of
               Inl err \<Rightarrow> Inl err
             | Inr parsed \<Rightarrow>
                 (case parsed of
                    JArr xs \<Rightarrow>
                      (case filter_js isTodo xs of
                         Inl err \<Rightarrow> Inl err
                       | Inr kept \<Rightarrow> Inr (map as_Todo kept))
                  | _ \<Rightarrow> Inr [])))"

definition loadTodos :: "env \<Rightarrow> task list" where
  "loadTodos e =
     (if \<not> window_defined e then []
      else (case loadTodos_try e of Inl err \<Rightarrow> [] | Inr r \<Rightarrow> r))"

text \<open>
  The second effect, \<open>localStorage.setItem(STORAGE_KEY, JSON.stringify(todos))\<close>
  behind the same guard. \<open>JSON.stringify\<close> writes every own property of a task:
  \<open>js_of_Todo t\<close> is the task as the object it is, with its four fields and its
  further properties.
\<close>

definition js_of_Todo :: "task \<Rightarrow> jsval" where
  "js_of_Todo t =
     JObj ([(js ''id'', JStr (id' t)), (js ''text'', JStr (text' t)),
            (js ''completed'', JBool (completed t)), (js ''createdAt'', JNum (createdAt t))]
           @ Todo.more t)"

text \<open>
  \<open>json_exact v\<close>: the value \<open>v\<close> is one that JSON can write down as it is. It
  holds no \<open>undefined\<close>, and every number in it is finite and not \<open>-0\<close>.
\<close>

fun json_exact :: "jsval \<Rightarrow> bool" where
  "json_exact JUndefined = False"
| "json_exact (JNum n) = (isFinite n \<and> n \<noteq> NegZero)"
| "json_exact (JArr xs) = (\<forall>x \<in> set xs. json_exact x)"
| "json_exact (JObj ps) = (\<forall>p \<in> set ps. json_exact (snd p))"
| "json_exact v = True"

definition saveTodos :: "task list \<Rightarrow> env \<Rightarrow> env" where
  "saveTodos ts e =
     (if \<not> window_defined e then e
      else e\<lparr>localStorage :=
               (localStorage e)(STORAGE_KEY \<mapsto> JSON_stringify (JArr (map js_of_Todo ts)))\<rparr>)"

text \<open>
  A stored element is well typed when it is an object that has the four required
  fields with the required primitive types. This is the specification's notion, written
  down apart from the callback of the program.
\<close>

fun is_object :: "jsval \<Rightarrow> bool" where
  "is_object (JObj ps) = True"
| "is_object v = False"

fun is_string :: "jsval \<Rightarrow> bool" where
  "is_string (JStr s) = True"
| "is_string v = False"

fun is_boolean :: "jsval \<Rightarrow> bool" where
  "is_boolean (JBool b) = True"
| "is_boolean v = False"

fun is_number :: "jsval \<Rightarrow> bool" where
  "is_number (JNum n) = True"
| "is_number v = False"

definition well_typed :: "jsval \<Rightarrow> bool" where
  "well_typed v \<longleftrightarrow>
     is_object v \<and>
     is_string (prop_value v (js ''id'')) \<and>
     is_string (prop_value v (js ''text'')) \<and>
     is_boolean (prop_value v (js ''completed'')) \<and>
     is_number (prop_value v (js ''createdAt''))"

subsection \<open>The component as a machine\<close>

text \<open>
  The first effect runs once after the first render, which starts from the empty list,
  the empty text and the filter \<open>all\<close>. After that the state changes by the events of
  the page: submitting the form, typing, toggling or removing a task, clearing the
  completed tasks, selecting a filter.
\<close>

definition mount :: "env \<Rightarrow> state" where
  "mount e = setTodos (\<lambda>prev. loadTodos e) \<lparr>todos = [], text_s = [], filter_s = F_all\<rparr>"

datatype event = Submit host int | Change jsstring | Toggle jsstring | Delete jsstring
  | ClearCompleted | Select Filter

fun handle :: "event \<Rightarrow> state \<Rightarrow> state" where
  "handle (Submit h now) s = handleSubmit h now s"
| "handle (Change v) s = setText v s"
| "handle (Toggle i) s = setTodos (toggleTodo i) s"
| "handle (Delete i) s = setTodos (deleteTodo i) s"
| "handle ClearCompleted s = setTodos clearCompleted s"
| "handle (Select f) s = setFilter f s"

fun run :: "event list \<Rightarrow> state \<Rightarrow> state" where
  "run [] s = s"
| "run (ev # evs) s = run evs (handle ev s)"

text \<open>
  \<open>new_ids evs s\<close>: every identifier that \<open>createId()\<close> returns for a task added in
  the course of \<open>evs\<close> is, at that moment, the identifier of no task of the list.
  \<open>unique_along evs s\<close>: in \<open>s\<close> and in every state that the events \<open>evs\<close> lead
  through, no two tasks of the list have the same identifier.
\<close>

fun new_ids :: "event list \<Rightarrow> state \<Rightarrow> bool" where
  "new_ids [] s = True"
| "new_ids (Submit h now # evs) s =
     ((trim (text_s s) = [] \<or> createId h \<notin> set (map id' (todos s))) \<and>
      new_ids evs (handleSubmit h now s))"
| "new_ids (ev # evs) s = new_ids evs (handle ev s)"

fun unique_along :: "event list \<Rightarrow> state \<Rightarrow> bool" where
  "unique_along [] s = distinct (map id' (todos s))"
| "unique_along (ev # evs) s =
     (distinct (map id' (todos s)) \<and> unique_along evs (handle ev s))"

subsection \<open>Example tasks\<close>

definition todo_a :: task where
  "todo_a = \<lparr>id' = js ''a'', text' = js ''milk'', completed = False, createdAt = Finite 1,
              \<dots> = []\<rparr>"

definition todo_a2 :: task where
  "todo_a2 = \<lparr>id' = js ''a'', text' = js ''eggs'', completed = True, createdAt = Finite 2,
               \<dots> = []\<rparr>"

definition todo_b :: task where
  "todo_b = \<lparr>id' = js ''b'', text' = js ''tea'', completed = True, createdAt = Finite 3,
              \<dots> = []\<rparr>"

definition todo_inf :: task where
  "todo_inf = \<lparr>id' = js ''a'', text' = js ''milk'', completed = False,
               createdAt = PosInfinity, \<dots> = []\<rparr>"

definition todo_negzero :: task where
  "todo_negzero = \<lparr>id' = js ''a'', text' = js ''milk'', completed = False,
                   createdAt = NegZero, \<dots> = []\<rparr>"

text \<open>
  A task with a further property \<open>note\<close>: a string, \<open>Infinity\<close>, \<open>undefined\<close>.
\<close>

definition todo_note :: task where
  "todo_note = \<lparr>id' = js ''n'', text' = js ''rice'', completed = False, createdAt = Finite 4,
                 \<dots> = [(js ''note'', JStr (js ''soon''))]\<rparr>"

definition todo_note_inf :: task where
  "todo_note_inf = \<lparr>id' = js ''n'', text' = js ''rice'', completed = False,
                     createdAt = Finite 4, \<dots> = [(js ''note'', JNum PosInfinity)]\<rparr>"

definition todo_note_undefined :: task where
  "todo_note_undefined = \<lparr>id' = js ''n'', text' = js ''rice'', completed = False,
                           createdAt = Finite 4, \<dots> = [(js ''note'', JUndefined)]\<rparr>"

text \<open>
  A host without \<open>crypto.randomUUID\<close>, and a task that has the identifier which
  \<open>createId\<close> makes on that host.
\<close>

definition host_plain :: host where
  "host_plain = \<lparr>crypto_randomUUID = None, Date_now = 1700000000000,
                  Math_random_16 = js ''0.8a''\<rparr>"

definition host_uuid :: host where
  "host_uuid = \<lparr>crypto_randomUUID = Some (js ''b''), Date_now = 1700000000000,
                 Math_random_16 = js ''0.8a''\<rparr>"

definition todo_c :: task where
  "todo_c = \<lparr>id' = js ''1700000000000-8a'', text' = js ''salt'', completed = False,
              createdAt = Finite 5, \<dots> = []\<rparr>"

text \<open>A browser whose storage holds at most the item of the program, and a server.\<close>

definition browser :: "stored option \<Rightarrow> env" where
  "browser item = \<lparr>window_defined = True, localStorage = Map.empty(STORAGE_KEY := item)\<rparr>"

definition server :: env where
  "server = \<lparr>window_defined = False, localStorage = Map.empty\<rparr>"

subsection \<open>Results about the handlers\<close>

lemma js_simps [simp]: "js [] = []" "js (c # cs) = of_nat (of_char c) # js cs"
  by (simp_all add: js_def)

lemma clearCompleted_subseq: "subseq (clearCompleted L) L"
  by (simp add: clearCompleted_def)

lemma clearCompleted_count:
  "count (mset (clearCompleted L)) t = (if completed t then 0 else count (mset L) t)"
  by (induction L) (auto simp: clearCompleted_def)

text \<open>
  Claim C1. For every list \<open>L\<close>, \<open>clearCompleted L\<close> contains exactly the elements
  of \<open>L\<close> whose \<open>completed\<close> field is false, in their original relative order: it is
  a subsequence of \<open>L\<close>, no element of it is completed, and every task that is not
  completed occurs in it as often as in \<open>L\<close>.
\<close>

theorem clearCompleted_exact:
  "clearCompleted L = [t \<leftarrow> L. completed t = False] \<and>
   subseq (clearCompleted L) L \<and>
   list_all (\<lambda>t. \<not> completed t) (clearCompleted L) \<and>
   count (mset (clearCompleted L)) t = (if completed t then 0 else count (mset L) t)"
  using clearCompleted_subseq [of L] clearCompleted_count [of L t]
  by (simp add: clearCompleted_def list_all_iff)

lemma trim_blank: "trim (js ''  '') = []"
  by (simp add: trim_def isWhiteSpace_def)

lemma trim_tea: "trim (js '' tea '') = js ''tea''"
  by (simp add: trim_def isWhiteSpace_def)

lemma createId_host_plain: "createId host_plain = js ''1700000000000-8a''"
  by (simp add: createId_def host_plain_def toString_int_def digits10.simps)

lemma createId_host_uuid: "createId host_uuid = js ''b''"
  by (simp add: createId_def host_uuid_def)

text \<open>
  Claim C2, as the code has it. When the input text trims to the empty string,
  \<open>handleSubmit\<close> leaves the whole state (list and input field) as it is. Otherwise the
  new list is one longer, its first element is the new task, with the trimmed text,
  \<open>completed = false\<close>, the time that \<open>Date.now()\<close> returned and no further
  property, the old list follows unchanged, and the input field is empty. The identifier
  of the new task is what \<open>createId()\<close> returns: the value of \<open>crypto.randomUUID()\<close>
  where the host has it, and else the time in decimal digits, a hyphen and the digits
  of the random number after its first two code units. It is not compared with the
  identifiers of the list.
\<close>

theorem handleSubmit_add:
  "(trim (text_s s) = [] \<longrightarrow> handleSubmit h now s = s) \<and>
   (trim (text_s s) \<noteq> [] \<longrightarrow>
      length (todos (handleSubmit h now s)) = length (todos s) + 1 \<and>
      todos (handleSubmit h now s) =
        \<lparr>id' = createId h, text' = trim (text_s s), completed = False,
         createdAt = Finite (of_int now), \<dots> = []\<rparr> # todos s \<and>
      text_s (handleSubmit h now s) = [] \<and>
      filter_s (handleSubmit h now s) = filter_s s) \<and>
   (\<forall>u. crypto_randomUUID h = Some u \<longrightarrow> createId h = u) \<and>
   (crypto_randomUUID h = None \<longrightarrow>
      createId h = toString_int (Date_now h) @ js ''-'' @ drop 2 (Math_random_16 h))"
  by (simp add: handleSubmit_def Let_def createId_def)

theorem handleSubmit_add_witness:
  "handleSubmit host_uuid 3 \<lparr>todos = [todo_a], text_s = js ''  '', filter_s = F_all\<rparr>
     = \<lparr>todos = [todo_a], text_s = js ''  '', filter_s = F_all\<rparr> \<and>
   handleSubmit host_uuid 3 \<lparr>todos = [todo_a], text_s = js '' tea '', filter_s = F_all\<rparr>
     = \<lparr>todos = [\<lparr>id' = js ''b'', text' = js ''tea'', completed = False,
                   createdAt = Finite 3, \<dots> = []\<rparr>, todo_a],
        text_s = [], filter_s = F_all\<rparr> \<and>
   crypto_randomUUID host_plain = None \<and>
   createId host_plain = js ''1700000000000-8a''"
proof -
  let ?s1 = "\<lparr>todos = [todo_a], text_s = js ''  '', filter_s = F_all\<rparr>"
  let ?s2 = "\<lparr>todos = [todo_a], text_s = js '' tea '', filter_s = F_all\<rparr>"
  have blank: "trim (text_s ?s1) = []"
    using trim_blank by simp
  have tea: "trim (text_s ?s2) = js ''tea''"
    using trim_tea by simp
  have uuid: "crypto_randomUUID host_uuid = Some (js ''b'')"
    by (simp add: host_uuid_def)
  have plain: "crypto_randomUUID host_plain = None"
    by (simp add: host_plain_def)
  have "handleSubmit host_uuid 3 ?s1 = ?s1"
    using handleSubmit_add [of ?s1 host_uuid 3] blank by blast
  moreover have "createId host_uuid = js ''b''"
    using handleSubmit_add [of ?s2 host_uuid 3] uuid by blast
  moreover have "todos (handleSubmit host_uuid 3 ?s2) =
      [\<lparr>id' = createId host_uuid, text' = js ''tea'', completed = False,
         createdAt = Finite 3, \<dots> = []\<rparr>, todo_a]
      \<and> text_s (handleSubmit host_uuid 3 ?s2) = []
      \<and> filter_s (handleSubmit host_uuid 3 ?s2) = F_all"
    using handleSubmit_add [of ?s2 host_uuid 3] tea by simp
  moreover have "createId host_plain =
      toString_int (Date_now host_plain) @ js ''-'' @ drop 2 (Math_random_16 host_plain)"
    using handleSubmit_add [of ?s2 host_plain 3] plain by blast
  then have "createId host_plain = js ''1700000000000-8a''"
    by (simp add: host_plain_def toString_int_def digits10.simps)
  ultimately show ?thesis
    using plain by (cases "handleSubmit host_uuid 3 ?s2") simp
qed

text \<open>
  The claim as stated, that the identifier of the new task is fresh, fails when
  \<open>createId()\<close> returns an identifier that a task of the list has already: on a host
  without \<open>crypto.randomUUID\<close>, at the time \<open>1700000000000\<close> and with the random
  digits \<open>0.8a\<close>, the new task gets the identifier of the stored task \<open>todo_c\<close>.
\<close>

theorem handleSubmit_id_in_use:
  "trim (js '' tea '') = js ''tea'' \<and>
   createId host_plain \<in> set (map id' [todo_c]) \<and>
   id' (hd (todos (handleSubmit host_plain 1700000000001
         \<lparr>todos = [todo_c], text_s = js '' tea '', filter_s = F_all\<rparr>)))
     \<in> set (map id' [todo_c]) \<and>
   \<not> distinct (map id' (todos (handleSubmit host_plain 1700000000001
         \<lparr>todos = [todo_c], text_s = js '' tea '', filter_s = F_all\<rparr>)))"
proof -
  have new: "createId host_plain = js ''1700000000000-8a''"
    by (simp add: createId_def host_plain_def toString_int_def digits10.simps)
  show ?thesis
    unfolding handleSubmit_def Let_def new
    by (simp add: trim_def isWhiteSpace_def todo_c_def)
qed

text \<open>
  Claim C3. Toggling the same identifier twice gives the list back, and toggling an
  identifier that no task of the list has leaves the list as it is.
\<close>

theorem toggleTodo_involutive:
  "toggleTodo i (toggleTodo i L) = L \<and>
   (i \<notin> set (map id' L) \<longrightarrow> toggleTodo i L = L)"
proof
  show "toggleTodo i (toggleTodo i L) = L"
    by (induction L) (simp_all add: toggleTodo_def)
  show "i \<notin> set (map id' L) \<longrightarrow> toggleTodo i L = L"
    by (induction L) (simp_all add: toggleTodo_def)
qed

theorem toggleTodo_involutive_witness:
  "toggleTodo (js ''b'') (toggleTodo (js ''b'') [todo_a, todo_b]) = [todo_a, todo_b] \<and>
   js ''c'' \<notin> set (map id' [todo_a, todo_b]) \<and>
   toggleTodo (js ''c'') [todo_a, todo_b] = [todo_a, todo_b]"
proof -
  have absent: "js ''c'' \<notin> set (map id' [todo_a, todo_b])"
    by (simp add: todo_a_def todo_b_def)
  show ?thesis
    using toggleTodo_involutive [of "js ''b''" "[todo_a, todo_b]"]
      toggleTodo_involutive [of "js ''c''" "[todo_a, todo_b]"] absent
    by blast
qed

subsection \<open>Deleting\<close>

lemma deleteTodo_count:
  "count (mset (deleteTodo i L)) t = (if id' t = i then 0 else count (mset L) t)"
  by (induction L) (auto simp: deleteTodo_def)

lemma deleteTodo_length:
  "length L = length (deleteTodo i L) + count_list (map id' L) i"
  by (induction L) (simp_all add: deleteTodo_def)

lemma count_list_distinct: "distinct xs \<Longrightarrow> count_list xs x \<le> 1"
  by (induction xs) auto

lemma deleteTodo_absent: "i \<notin> set (map id' L) \<Longrightarrow> deleteTodo i L = L"
  by (induction L) (auto simp: deleteTodo_def)

text \<open>
  Claim C4, as the code has it. \<open>deleteTodo i\<close> keeps the tasks whose identifier is
  not \<open>i\<close>, in their order, and removes every task whose identifier is \<open>i\<close>: as many
  as the list holds, which is at most one when the identifiers of the list are pairwise
  distinct. Deleting is idempotent, and deleting an identifier that no task has leaves
  the list as it is.
\<close>

theorem deleteTodo_removes_matching:
  "subseq (deleteTodo i L) L \<and>
   count (mset (deleteTodo i L)) t = (if id' t = i then 0 else count (mset L) t) \<and>
   length L = length (deleteTodo i L) + count_list (map id' L) i \<and>
   (distinct (map id' L) \<longrightarrow> length L \<le> length (deleteTodo i L) + 1) \<and>
   deleteTodo i (deleteTodo i L) = deleteTodo i L \<and>
   (i \<notin> set (map id' L) \<longrightarrow> deleteTodo i L = L)"
proof -
  have sub: "subseq (deleteTodo i L) L"
    by (simp add: deleteTodo_def)
  have one: "length L \<le> length (deleteTodo i L) + 1" if "distinct (map id' L)"
    using deleteTodo_length [of L i] count_list_distinct [OF that, of i] by linarith
  have idem: "deleteTodo i (deleteTodo i L) = deleteTodo i L"
    by (simp add: deleteTodo_def)
  show ?thesis
    using sub one idem deleteTodo_count [of i L t] deleteTodo_length [of L i]
      deleteTodo_absent [of i L]
    by blast
qed

theorem deleteTodo_removes_matching_witness:
  "distinct (map id' [todo_a, todo_b]) \<and>
   deleteTodo (js ''a'') [todo_a, todo_b] = [todo_b] \<and>
   js ''c'' \<notin> set (map id' [todo_a, todo_b]) \<and>
   deleteTodo (js ''c'') [todo_a, todo_b] = [todo_a, todo_b] \<and>
   length [todo_a, todo_b] \<le> length (deleteTodo (js ''a'') [todo_a, todo_b]) + 1"
proof -
  have d: "distinct (map id' [todo_a, todo_b])"
    by (simp add: todo_a_def todo_b_def)
  have absent: "js ''c'' \<notin> set (map id' [todo_a, todo_b])"
    by (simp add: todo_a_def todo_b_def)
  have del: "deleteTodo (js ''a'') [todo_a, todo_b] = [todo_b]"
    by (simp add: deleteTodo_def todo_a_def todo_b_def)
  show ?thesis
    using deleteTodo_removes_matching [of "js ''a''" "[todo_a, todo_b]" todo_a]
      deleteTodo_removes_matching [of "js ''c''" "[todo_a, todo_b]" todo_a] d absent del
    by blast
qed

text \<open>
  The claim as stated, that deleting removes at most one element from every list, fails
  on a list in which two tasks carry the same identifier: both are removed.
\<close>

theorem deleteTodo_two_removed:
  "\<not> (length [todo_a, todo_a2, todo_b]
        \<le> length (deleteTodo (js ''a'') [todo_a, todo_a2, todo_b]) + 1)"
  by (simp add: deleteTodo_def todo_a_def todo_a2_def todo_b_def)

subsection \<open>Toggling changes one field\<close>

text \<open>
  Claim C10. \<open>toggleTodo i\<close> keeps the length of the list and, position by position,
  the \<open>id\<close>, \<open>text\<close> and \<open>createdAt\<close> of every task; a task whose identifier is
  not \<open>i\<close> is unchanged, and a task whose identifier is \<open>i\<close> differs from the old
  one in its \<open>completed\<close> field only.
\<close>

theorem toggleTodo_frame:
  "length (toggleTodo i L) = length L \<and>
   map id' (toggleTodo i L) = map id' L \<and>
   map text' (toggleTodo i L) = map text' L \<and>
   map createdAt (toggleTodo i L) = map createdAt L \<and>
   (\<forall>k < length L. id' (L ! k) \<noteq> i \<longrightarrow> toggleTodo i L ! k = L ! k) \<and>
   (\<forall>k < length L. id' (L ! k) = i \<longrightarrow>
        toggleTodo i L ! k = (L ! k)\<lparr>completed := \<not> completed (L ! k)\<rparr>)"
proof -
  have "map id' (toggleTodo i L) = map id' L"
    by (induction L) (simp_all add: toggleTodo_def)
  moreover have "map text' (toggleTodo i L) = map text' L"
    by (induction L) (simp_all add: toggleTodo_def)
  moreover have "map createdAt (toggleTodo i L) = map createdAt L"
    by (induction L) (simp_all add: toggleTodo_def)
  moreover have "length (toggleTodo i L) = length L"
    by (simp add: toggleTodo_def)
  moreover have "toggleTodo i L ! k = L ! k" if "k < length L" "id' (L ! k) \<noteq> i" for k
    using that by (simp add: toggleTodo_def)
  moreover have "toggleTodo i L ! k = (L ! k)\<lparr>completed := \<not> completed (L ! k)\<rparr>"
    if "k < length L" "id' (L ! k) = i" for k
    using that by (simp add: toggleTodo_def)
  ultimately show ?thesis
    by blast
qed

theorem toggleTodo_frame_witness:
  "toggleTodo (js ''b'') [todo_a, todo_b] ! 0 = todo_a \<and>
   toggleTodo (js ''b'') [todo_a, todo_b] ! 1 = todo_b\<lparr>completed := False\<rparr> \<and>
   length (toggleTodo (js ''b'') [todo_a, todo_b]) = 2"
proof -
  let ?L = "[todo_a, todo_b]"
  have a: "(0::nat) < length ?L \<and> id' (?L ! 0) \<noteq> js ''b''"
    by (simp add: todo_a_def)
  have b: "(1::nat) < length ?L \<and> id' (?L ! 1) = js ''b'' \<and> completed (?L ! 1)"
    by (simp add: todo_b_def)
  have "toggleTodo (js ''b'') ?L ! 0 = ?L ! 0"
    using toggleTodo_frame [of "js ''b''" ?L] a by blast
  moreover have "toggleTodo (js ''b'') ?L ! 1 = (?L ! 1)\<lparr>completed := \<not> completed (?L ! 1)\<rparr>"
    using toggleTodo_frame [of "js ''b''" ?L] b by blast
  moreover have "length (toggleTodo (js ''b'') ?L) = length ?L"
    using toggleTodo_frame [of "js ''b''" ?L] by blast
  ultimately show ?thesis
    using b by simp
qed

subsection \<open>The filtered view\<close>

text \<open>
  Claim C8. The view is the sublist of the tasks that are not completed for
  \<open>active\<close>, the sublist of the completed tasks for \<open>completed\<close>, and the list itself
  for \<open>all\<close>; the two sublists split the list between them. Computing the view returns
  a list and no state, and selecting a filter leaves the list of the state as it is.
\<close>

theorem filteredTodos_view:
  "filteredTodos F_active L = [t \<leftarrow> L. completed t = False] \<and>
   filteredTodos F_completed L = [t \<leftarrow> L. completed t = True] \<and>
   filteredTodos F_all L = L \<and>
   subseq (filteredTodos f L) L \<and>
   mset (filteredTodos F_active L) + mset (filteredTodos F_completed L) = mset L \<and>
   todos (setFilter f s) = todos s"
proof -
  have "subseq (filteredTodos f L) L"
    by (cases f) simp_all
  moreover have "mset (filteredTodos F_active L) + mset (filteredTodos F_completed L) = mset L"
    by (induction L) simp_all
  ultimately show ?thesis
    by (simp add: setFilter_def)
qed

subsection \<open>Results about loading and saving\<close>

lemmas load_eval = loadTodos_def loadTodos_try_def browser_def js_of_Todo_def isTodo_def
  typeof_is_def and_also_def as_Todo_def STORAGE_KEY_def

lemma typeof_string: "typeof v = ''string'' \<longleftrightarrow> is_string v"
  by (cases v) simp_all

lemma typeof_boolean: "typeof v = ''boolean'' \<longleftrightarrow> is_boolean v"
  by (cases v) simp_all

lemma typeof_number: "typeof v = ''number'' \<longleftrightarrow> is_number v"
  by (cases v) simp_all

lemma is_string_value: "is_string v \<Longrightarrow> v = JStr (string_of v)"
  by (cases v) simp_all

lemma is_boolean_value: "is_boolean v \<Longrightarrow> v = JBool (boolean_of v)"
  by (cases v) simp_all

lemma is_number_value: "is_number v \<Longrightarrow> v = JNum (number_of v)"
  by (cases v) simp_all

lemma isTodo_null: "isTodo JNull = Inl TypeError" "isTodo JUndefined = Inl TypeError"
  by (simp_all add: isTodo_def typeof_is_def and_also_def)

lemma isTodo_object: "isTodo (JObj ps) = Inr (well_typed (JObj ps))"
  by (simp add: isTodo_def typeof_is_def and_also_def well_typed_def
      typeof_string typeof_boolean typeof_number)

text \<open>
  On everything but \<open>null\<close> and \<open>undefined\<close> the callback of the program decides
  the specification's notion of a well-typed element.
\<close>

lemma isTodo_other: "v \<noteq> JNull \<Longrightarrow> v \<noteq> JUndefined \<Longrightarrow> isTodo v = Inr (well_typed v)"
  by (cases v)
    (simp_all add: isTodo_object, simp_all add: isTodo_def typeof_is_def and_also_def well_typed_def)

lemma isTodo_kept:
  assumes "isTodo v = Inr True"
  shows "prop_value v (js ''id'') = JStr (id' (as_Todo v)) \<and>
         prop_value v (js ''text'') = JStr (text' (as_Todo v)) \<and>
         prop_value v (js ''completed'') = JBool (completed (as_Todo v)) \<and>
         prop_value v (js ''createdAt'') = JNum (createdAt (as_Todo v))"
proof -
  have "v \<noteq> JNull" "v \<noteq> JUndefined"
    using assms isTodo_null by auto
  then have "well_typed v"
    using assms isTodo_other by simp
  then show ?thesis
    using is_string_value is_boolean_value is_number_value
    by (simp add: well_typed_def as_Todo_def)
qed

lemma filter_js_total:
  "\<forall>x \<in> set xs. p x = Inr (q x) \<Longrightarrow> filter_js p xs = Inr (filter q xs)"
  by (induction xs) simp_all

lemma filter_js_throws_some:
  "x \<in> set xs \<Longrightarrow> p x = Inl e \<Longrightarrow> \<exists>e'. filter_js p xs = Inl e'"
  by (induction xs) (auto split: sum.splits)

lemma as_Todo_js_of_Todo: "as_Todo (js_of_Todo t) = t"
  by (simp add: as_Todo_def js_of_Todo_def)

text \<open>A value that JSON can write down as it is, is read back as it is.\<close>

lemma json_exact_reread: "json_exact v \<Longrightarrow> reread v = v"
proof (induction v)
  case (JNum n)
  then show ?case by (cases n) simp_all
next
  case (JArr xs)
  then have "map reread xs = xs"
    by (simp add: map_idI)
  then show ?case by simp
next
  case (JObj ps)
  have keep: "filter (\<lambda>(k, v). v \<noteq> JUndefined) ps = ps"
    using JObj.prems by (auto simp: filter_id_conv)
  have "map (\<lambda>(k, v). (k, reread v)) ps = ps"
  proof (rule map_idI)
    fix p assume p: "p \<in> set ps"
    then have "json_exact (snd p)"
      using JObj.prems by simp
    then have "reread (snd p) = snd p"
      using JObj.IH [of p "snd p"] p by (cases p) simp
    then show "(case p of (k, v) \<Rightarrow> (k, reread v)) = p"
      by (cases p) simp
  qed
  then show ?case
    by (simp add: keep)
qed simp_all

lemma json_exact_js_of_Todo:
  "json_exact (js_of_Todo t) \<longleftrightarrow>
     isFinite (createdAt t) \<and> createdAt t \<noteq> NegZero \<and>
     (\<forall>p \<in> set (Todo.more t). json_exact (snd p))"
  by (auto simp: js_of_Todo_def)

lemma reread_js_of_Todo: "json_exact (js_of_Todo t) \<Longrightarrow> reread (js_of_Todo t) = js_of_Todo t"
  by (rule json_exact_reread)

lemma well_typed_js_of_Todo: "well_typed (js_of_Todo t)"
  by (simp add: js_of_Todo_def well_typed_def)

lemma saved_item:
  "window_defined e \<Longrightarrow>
   localStorage (saveTodos L e) STORAGE_KEY = Some (JSON_stringify (JArr (map js_of_Todo L)))"
  by (simp add: saveTodos_def)

lemma saved_window: "window_defined (saveTodos L e) = window_defined e"
  by (simp add: saveTodos_def)

text \<open>What \<open>loadTodos\<close> returns, by the stored item.\<close>

lemma loadTodos_absent:
  "localStorage e STORAGE_KEY = None \<Longrightarrow> loadTodos e = []"
  by (simp add: loadTodos_def loadTodos_try_def)

lemma loadTodos_not_json:
  "localStorage e STORAGE_KEY = Some (NotJSON s) \<Longrightarrow> loadTodos e = []"
  by (simp add: loadTodos_def loadTodos_try_def)

lemma loadTodos_not_array:
  "localStorage e STORAGE_KEY = Some (JSONText v) \<Longrightarrow> \<forall>xs. v \<noteq> JArr xs \<Longrightarrow> loadTodos e = []"
  by (cases v) (simp_all add: loadTodos_def loadTodos_try_def)

lemma loadTodos_array:
  assumes "window_defined e" "localStorage e STORAGE_KEY = Some (JSONText (JArr xs))"
    and "JNull \<notin> set xs" "JUndefined \<notin> set xs"
  shows "loadTodos e = map as_Todo (filter well_typed xs)"
proof -
  have "\<forall>x \<in> set xs. isTodo x = Inr (well_typed x)"
    using assms(3,4) isTodo_other by metis
  then have "filter_js isTodo xs = Inr (filter well_typed xs)"
    by (rule filter_js_total)
  then show ?thesis
    using assms(1,2) by (simp add: loadTodos_def loadTodos_try_def)
qed

lemma loadTodos_array_with_null:
  assumes "localStorage e STORAGE_KEY = Some (JSONText (JArr xs))" and "JNull \<in> set xs"
  shows "loadTodos e = []"
proof -
  obtain e' where "filter_js isTodo xs = Inl e'"
    using filter_js_throws_some [of JNull xs isTodo TypeError] assms(2) isTodo_null(1)
    by blast
  then show ?thesis
    using assms(1) by (simp add: loadTodos_def loadTodos_try_def)
qed

text \<open>
  Claim C5, as the code has it. In a browser, for every list \<open>L\<close> of tasks whose
  \<open>createdAt\<close> is finite and not \<open>-0\<close> and whose further properties hold only
  values that JSON writes down as they are, loading after saving \<open>L\<close> returns \<open>L\<close>.
\<close>

theorem load_after_save:
  assumes "window_defined e"
    and "\<forall>t \<in> set L. isFinite (createdAt t) \<and> createdAt t \<noteq> NegZero \<and>
           (\<forall>p \<in> set (Todo.more t). json_exact (snd p))"
  shows "loadTodos (saveTodos L e) = L"
proof -
  have "\<forall>t \<in> set L. json_exact (js_of_Todo t)"
    using assms(2) by (simp add: json_exact_js_of_Todo)
  then have "map reread (map js_of_Todo L) = map js_of_Todo L"
    by (induction L) (simp_all add: reread_js_of_Todo)
  then have item:
    "localStorage (saveTodos L e) STORAGE_KEY = Some (JSONText (JArr (map js_of_Todo L)))"
    using saved_item [OF assms(1), of L] by (simp add: JSON_stringify_def)
  have nonull: "JNull \<notin> set (map js_of_Todo L)" "JUndefined \<notin> set (map js_of_Todo L)"
    by (auto simp: js_of_Todo_def)
  have "loadTodos (saveTodos L e) = map as_Todo (filter well_typed (map js_of_Todo L))"
    using loadTodos_array [OF _ item nonull] assms(1) by (simp add: saved_window)
  also have "filter well_typed (map js_of_Todo L) = map js_of_Todo L"
    by (induction L) (simp_all add: well_typed_js_of_Todo)
  also have "map as_Todo (map js_of_Todo L) = L"
    by (induction L) (simp_all add: as_Todo_js_of_Todo)
  finally show ?thesis .
qed

theorem load_after_save_witness:
  "window_defined (browser None) \<and>
   list_all (\<lambda>t. isFinite (createdAt t) \<and> createdAt t \<noteq> NegZero \<and>
               list_all (\<lambda>p. json_exact (snd p)) (Todo.more t)) [todo_a, todo_note] \<and>
   loadTodos (saveTodos [todo_a, todo_note] (browser None)) = [todo_a, todo_note]"
proof -
  have w: "window_defined (browser None)"
    by (simp add: browser_def)
  have f: "\<forall>t \<in> set [todo_a, todo_note]. isFinite (createdAt t) \<and> createdAt t \<noteq> NegZero \<and>
             (\<forall>p \<in> set (Todo.more t). json_exact (snd p))"
    by (simp add: todo_a_def todo_note_def)
  show ?thesis
    using load_after_save [OF w f] w f by (simp add: list_all_iff)
qed

text \<open>
  The claim as stated fails for a task whose \<open>createdAt\<close> is the number
  \<open>Infinity\<close>. Such a task is well typed, and \<open>loadTodos\<close> returns it for a stored
  text whose number is too large for a double (as \<open>1e999\<close>); saved, it is written with
  \<open>"createdAt":null\<close>, which the next \<open>loadTodos\<close> drops. It fails as well for a
  task with a further property \<open>note\<close> of that value, which comes back as \<open>null\<close>; for
  a task whose \<open>createdAt\<close> is \<open>-0\<close>, which comes back as \<open>0\<close>; for a task
  with a further property of the value \<open>undefined\<close>, which is not written; and for
  every task where \<open>window\<close> is not defined, since nothing is saved or loaded there.
\<close>

theorem load_after_save_infinity:
  "loadTodos (browser (Some (JSONText (JArr [js_of_Todo todo_inf])))) = [todo_inf] \<and>
   loadTodos (saveTodos [todo_inf] (browser None)) \<noteq> [todo_inf] \<and>
   loadTodos (browser (Some (JSONText (JArr [js_of_Todo todo_note_inf])))) = [todo_note_inf] \<and>
   loadTodos (saveTodos [todo_note_inf] (browser None)) \<noteq> [todo_note_inf] \<and>
   loadTodos (browser (Some (JSONText (JArr [js_of_Todo todo_negzero])))) = [todo_negzero] \<and>
   loadTodos (saveTodos [todo_negzero] (browser None)) \<noteq> [todo_negzero] \<and>
   loadTodos (saveTodos [todo_note_undefined] (browser None)) \<noteq> [todo_note_undefined] \<and>
   loadTodos (saveTodos [todo_a] server) \<noteq> [todo_a]"
  by (simp add: load_eval well_typed_def saveTodos_def JSON_stringify_def server_def
      todo_inf_def todo_note_inf_def todo_negzero_def todo_note_undefined_def todo_a_def)

text \<open>
  Claim C6, at the input where the code departs from it. The stored array holds
  \<open>null\<close> and one well-typed task. The claim asks for the well-typed task;
  \<open>loadTodos\<close> returns the empty list, since the callback throws on \<open>null\<close> and the
  \<open>catch\<close> discards the whole array. With the number \<open>5\<close> in the place of
  \<open>null\<close> the same array loads as the claim says.
\<close>

theorem loadTodos_null_element:
  "loadTodos (browser (Some (JSONText (JArr [JNull, js_of_Todo todo_a])))) = [] \<and>
   map as_Todo (filter well_typed [JNull, js_of_Todo todo_a]) = [todo_a] \<and>
   loadTodos (browser (Some (JSONText (JArr [JNum (Finite 5), js_of_Todo todo_a])))) = [todo_a]"
  by (simp add: load_eval well_typed_def todo_a_def)

text \<open>
  Claim C9. Where \<open>window\<close> is not defined, \<open>loadTodos\<close> returns the empty list and
  saving any list leaves the environment as it is.
\<close>

theorem no_window:
  "\<not> window_defined e \<Longrightarrow> loadTodos e = [] \<and> saveTodos L e = e"
  by (simp add: loadTodos_def saveTodos_def)

theorem no_window_witness:
  "\<not> window_defined server \<and> loadTodos server = [] \<and> saveTodos [todo_a] server = server"
proof -
  have "\<not> window_defined server"
    by (simp add: server_def)
  then show ?thesis
    using no_window [of server "[todo_a]"] by simp
qed

subsection \<open>Identifiers along a run\<close>

lemma toggleTodo_ids: "map id' (toggleTodo i L) = map id' L"
  by (induction L) (simp_all add: toggleTodo_def)

lemma deleteTodo_distinct: "distinct (map id' L) \<Longrightarrow> distinct (map id' (deleteTodo i L))"
  by (simp add: deleteTodo_def distinct_map_filter)

lemma clearCompleted_distinct: "distinct (map id' L) \<Longrightarrow> distinct (map id' (clearCompleted L))"
  by (simp add: clearCompleted_def distinct_map_filter)

text \<open>
  One event, from a list with pairwise distinct identifiers: the next list has them
  pairwise distinct exactly when the event is no addition, or adds nothing, or adds an
  identifier that the list does not hold.
\<close>

lemma handle_distinct_iff:
  assumes "distinct (map id' (todos s))"
  shows "distinct (map id' (todos (handle ev s))) \<and> new_ids evs (handle ev s)
         \<longleftrightarrow> new_ids (ev # evs) s"
proof (cases ev)
  case (Submit h now)
  have "distinct (map id' (todos (handleSubmit h now s)))
        \<longleftrightarrow> trim (text_s s) = [] \<or> createId h \<notin> set (map id' (todos s))"
    using assms by (auto simp: handleSubmit_def Let_def)
  then show ?thesis
    using Submit by auto
next
  case (Change v)
  then show ?thesis
    using assms by (simp add: setText_def)
next
  case (Toggle i)
  then show ?thesis
    using assms by (simp add: setTodos_def toggleTodo_ids)
next
  case (Delete i)
  then show ?thesis
    using assms by (simp add: setTodos_def deleteTodo_distinct)
next
  case ClearCompleted
  then show ?thesis
    using assms by (simp add: setTodos_def clearCompleted_distinct)
next
  case (Select f)
  then show ?thesis
    using assms by (simp add: setFilter_def)
qed

lemma unique_along_iff:
  "unique_along evs s \<longleftrightarrow> distinct (map id' (todos s)) \<and> new_ids evs s"
proof (induction evs arbitrary: s)
  case Nil
  show ?case by simp
next
  case (Cons ev evs)
  show ?case
  proof (cases "distinct (map id' (todos s))")
    case True
    then show ?thesis
      using Cons.IH [of "handle ev s"] handle_distinct_iff [OF True, of ev evs] by auto
  next
    case False
    then show ?thesis by simp
  qed
qed

lemma todos_mount: "todos (mount e) = loadTodos e"
  by (simp add: mount_def setTodos_def)

text \<open>
  Claim C7, as the code has it. Toggling, deleting and clearing keep the identifiers of
  a list pairwise distinct. \<open>loadTodos\<close> and adding do not see to it: along a run of
  events from the list that \<open>loadTodos\<close> returns at start-up, every list has pairwise
  distinct identifiers if and only if the loaded list has them and every identifier
  that \<open>createId()\<close> returns for an added task is, at that moment, the identifier of
  no task of the list.
\<close>

theorem ids_unique_iff:
  "(unique_along evs (mount e)
      \<longleftrightarrow> distinct (map id' (loadTodos e)) \<and> new_ids evs (mount e)) \<and>
   (distinct (map id' L) \<longrightarrow>
      distinct (map id' (toggleTodo i L)) \<and> distinct (map id' (deleteTodo i L)) \<and>
      distinct (map id' (clearCompleted L)))"
  using unique_along_iff [of evs "mount e"] deleteTodo_distinct [of L i]
    clearCompleted_distinct [of L]
  by (simp add: todos_mount toggleTodo_ids)

theorem ids_unique_iff_witness:
  "distinct (map id' (loadTodos (browser (Some (JSONText (JArr [js_of_Todo todo_a])))))) \<and>
   new_ids [Change (js '' tea ''), Submit host_uuid 3, Toggle (js ''a''), ClearCompleted]
     (mount (browser (Some (JSONText (JArr [js_of_Todo todo_a]))))) \<and>
   unique_along [Change (js '' tea ''), Submit host_uuid 3, Toggle (js ''a''), ClearCompleted]
     (mount (browser (Some (JSONText (JArr [js_of_Todo todo_a]))))) \<and>
   distinct (map id' [todo_a, todo_b]) \<and>
   distinct (map id' (toggleTodo (js ''a'') [todo_a, todo_b])) \<and>
   distinct (map id' (deleteTodo (js ''a'') [todo_a, todo_b])) \<and>
   distinct (map id' (clearCompleted [todo_a, todo_b]))"
proof -
  let ?e = "browser (Some (JSONText (JArr [js_of_Todo todo_a])))"
  let ?evs = "[Change (js '' tea ''), Submit host_uuid 3, Toggle (js ''a''), ClearCompleted]"
  have loaded: "loadTodos ?e = [todo_a]"
    by (simp add: load_eval well_typed_def todo_a_def)
  have d: "distinct (map id' (loadTodos ?e))"
    by (simp add: loaded)
  have new: "createId host_uuid = js ''b''"
    by (simp add: createId_def host_uuid_def)
  have n: "new_ids ?evs (mount ?e)"
    unfolding mount_def loaded
    by (simp add: setTodos_def setText_def handleSubmit_def Let_def new
        trim_def isWhiteSpace_def todo_a_def)
  have ab: "distinct (map id' [todo_a, todo_b])"
    by (simp add: todo_a_def todo_b_def)
  show ?thesis
    using ids_unique_iff [of ?evs ?e "[todo_a, todo_b]" "js ''a''"] d n ab by blast
qed

text \<open>
  The claim as stated fails at start-up already: \<open>loadTodos\<close> does not compare
  identifiers, and returns two tasks with the same identifier when the stored array
  holds them. It fails for adding as well: from the loaded list of the one task
  \<open>todo_c\<close>, submitting a text on a host where \<open>createId()\<close> returns the identifier
  of \<open>todo_c\<close> gives a list of two tasks with that identifier.
\<close>

theorem loadTodos_duplicate_ids:
  "\<not> distinct (map id' (loadTodos
      (browser (Some (JSONText (JArr [js_of_Todo todo_a, js_of_Todo todo_a2])))))) \<and>
   distinct (map id' (loadTodos (browser (Some (JSONText (JArr [js_of_Todo todo_c])))))) \<and>
   \<not> distinct (map id' (todos
      (run [Change (js '' tea ''), Submit host_plain 1700000000001]
         (mount (browser (Some (JSONText (JArr [js_of_Todo todo_c]))))))))"
proof -
  let ?e = "browser (Some (JSONText (JArr [js_of_Todo todo_c])))"
  have dup: "\<not> distinct (map id' (loadTodos
      (browser (Some (JSONText (JArr [js_of_Todo todo_a, js_of_Todo todo_a2]))))))"
    by (simp add: load_eval well_typed_def todo_a_def todo_a2_def)
  have loaded: "loadTodos ?e = [todo_c]"
    by (simp add: load_eval well_typed_def todo_c_def)
  have new: "createId host_plain = js ''1700000000000-8a''"
    by (simp add: createId_def host_plain_def toString_int_def digits10.simps)
  have "\<not> distinct (map id' (todos
      (run [Change (js '' tea ''), Submit host_plain 1700000000001] (mount ?e))))"
    unfolding mount_def loaded
    by (simp add: setTodos_def setText_def handleSubmit_def Let_def new
        trim_def isWhiteSpace_def todo_c_def)
  moreover have "distinct (map id' (loadTodos ?e))"
    unfolding loaded by simp
  ultimately show ?thesis
    using dup by blast
qed

end
